theory Spec2Isabelle
  imports Complex_Main
begin

section \<open>Outcomes of handlers\<close>

text \<open>
  A JavaScript function either returns or throws.  A thrown error is named by the
  string of its class or message; the only throw the modelled handlers can reach is
  the \<open>TypeError\<close> of reading a property of \<open>undefined\<close>.
\<close>

datatype 'a outcome = Returns 'a | Throws string

section \<open>The flashcard study view (component \<open>LanguageLearning\<close>)\<close>

text \<open>
  \<open>renderFlashcards\<close> hands two callbacks to the \<open>Flashcard\<close> component:
  \<^verbatim>\<open>onNext     = () => { setCurrentCardIndex(prev => Math.min(prev + 1, flashcards.length - 1));
                       setIsCardFlipped(false); }\<close>
  \<^verbatim>\<open>onPrevious = () => { setCurrentCardIndex(prev => Math.max(prev - 1, 0));
                       setIsCardFlipped(false); }\<close>
  The index is a JavaScript number, here an \<open>int\<close>, so that \<open>length - 1\<close> of an
  empty list is \<open>-1\<close> as in the source.
\<close>

record FlashcardData =
  card_id :: string
  front :: string
  back_text :: string
  pronunciation :: "string option"
  example :: "string option"
  difficulty :: "string option"
  partOfSpeech :: "string option"

record Study =
  flashcards :: "FlashcardData list"
  currentCardIndex :: int
  isCardFlipped :: bool

definition initialStudy :: Study where
  "initialStudy = \<lparr>flashcards = [], currentCardIndex = 0, isCardFlipped = False\<rparr>"

definition onNext :: "Study \<Rightarrow> Study" where
  "onNext s = s\<lparr>currentCardIndex := min (currentCardIndex s + 1) (int (length (flashcards s)) - 1),
                isCardFlipped := False\<rparr>"

definition onPrevious :: "Study \<Rightarrow> Study" where
  "onPrevious s = s\<lparr>currentCardIndex := max (currentCardIndex s - 1) 0,
                    isCardFlipped := False\<rparr>"

definition onFlip :: "Study \<Rightarrow> Study" where
  "onFlip s = s\<lparr>isCardFlipped := \<not> isCardFlipped s\<rparr>"

text \<open>
  The success path of \<open>handleCreateFlashcards\<close>: the parsed cards replace the list and
  the index is reset in the same batch of updates.  It is the only place that calls
  \<open>setFlashcards\<close>.
\<close>

definition cardsCreated :: "FlashcardData list \<Rightarrow> Study \<Rightarrow> Study" where
  "cardsCreated cardsArray s =
     s\<lparr>flashcards := cardsArray, currentCardIndex := 0, isCardFlipped := False\<rparr>"

datatype study_event = CardsCreated "FlashcardData list" | Next | Previous | Flip

text \<open>
  The \<open>Flashcard\<close> component, and with it the three navigation callbacks, is rendered
  only when \<open>flashcards.length > 0\<close>.
\<close>

fun study_step :: "study_event \<Rightarrow> Study \<Rightarrow> Study" where
  "study_step (CardsCreated cs) s = cardsCreated cs s"
| "study_step Next s = (if length (flashcards s) > 0 then onNext s else s)"
| "study_step Previous s = (if length (flashcards s) > 0 then onPrevious s else s)"
| "study_step Flip s = (if length (flashcards s) > 0 then onFlip s else s)"

fun study_run :: "study_event list \<Rightarrow> Study \<Rightarrow> Study" where
  "study_run [] s = s"
| "study_run (e # es) s = study_run es (study_step e s)"

definition index_ok :: "Study \<Rightarrow> bool" where
  "index_ok s \<longleftrightarrow>
     (if flashcards s = [] then currentCardIndex s = 0
      else 0 \<le> currentCardIndex s \<and> currentCardIndex s \<le> int (length (flashcards s)) - 1)"

definition sampleCard :: FlashcardData where
  "sampleCard =
     \<lparr>card_id = ''1'', front = ''Serendipity'', back_text = ''A pleasant surprise'',
      pronunciation = None, example = None, difficulty = Some ''advanced'',
      partOfSpeech = Some ''noun''\<rparr>"

definition twoCards :: Study where
  "twoCards = \<lparr>flashcards = [sampleCard, sampleCard], currentCardIndex = 0,
                isCardFlipped = False\<rparr>"

section \<open>IEEE doubles, as far as the score needs them\<close>

text \<open>
  The score is \<^verbatim>\<open>Math.round((correct / total) * 100)\<close> on JavaScript numbers, which are
  IEEE-754 doubles: the quotient is rounded to the nearest double, the product with
  \<open>100\<close> is rounded again, and \<open>Math.round\<close> is then exact (nearest integer, a tie goes
  up).  Only positive quotients of array lengths occur, far from overflow and the
  subnormal range, so a positive double is a pair \<open>(m, e)\<close> standing for \<open>m * 2 ^ e\<close>,
  and rounding keeps 53 significant bits, a tie going to the even significand.
\<close>

fun bitlen :: "nat \<Rightarrow> nat" where
  "bitlen n = (if n = 0 then 0 else Suc (bitlen (n div 2)))"

declare bitlen.simps [simp del]

text \<open>\<open>a / b\<close> rounded to the nearest integer, a tie going to the even one.\<close>

definition round_half_even :: "nat \<Rightarrow> nat \<Rightarrow> nat" where
  "round_half_even a b =
     (let q = a div b; r = a mod b
      in if 2 * r < b then q
         else if b < 2 * r then q + 1
         else if even q then q else q + 1)"

text \<open>Whether \<open>2 ^ k \<le> a / b\<close>, for an integer \<open>k\<close> of either sign.\<close>

definition pow2_le :: "int \<Rightarrow> nat \<Rightarrow> nat \<Rightarrow> bool" where
  "pow2_le k a b = (if 0 \<le> k then b * 2 ^ nat k \<le> a else b \<le> a * 2 ^ nat (- k))"

text \<open>
  The double nearest to \<open>a / b\<close>, for \<open>a, b > 0\<close>.  With \<open>k\<close> the difference of the bit
  lengths, \<open>a / b\<close> lies between \<open>2 ^ (k - 1)\<close> and \<open>2 ^ (k + 1)\<close>; the binary exponent
  \<open>E\<close> of \<open>a / b\<close> is \<open>k\<close> or \<open>k - 1\<close>, and the significand is \<open>a / b / 2 ^ (E - 52)\<close>
  rounded to an integer.
\<close>

definition to_double :: "nat \<Rightarrow> nat \<Rightarrow> nat \<times> int" where
  "to_double a b =
     (let k = int (bitlen a) - int (bitlen b);
          E = (if pow2_le k a b then k else k - 1);
          e = E - 52;
          m = (if 0 \<le> e then round_half_even a (b * 2 ^ nat e)
               else round_half_even (a * 2 ^ nat (- e)) b)
      in (m, e))"

text \<open>The double product of the double \<open>(m, e)\<close> with \<open>100\<close>.\<close>

definition times100 :: "nat \<times> int \<Rightarrow> nat \<times> int" where
  "times100 x =
     (case x of (m, e) \<Rightarrow>
        if 0 \<le> e then to_double (100 * m * 2 ^ nat e) 1
        else to_double (100 * m) (2 ^ nat (- e)))"

text \<open>\<open>Math.round\<close> of the double \<open>(m, e)\<close>: \<open>floor (m * 2 ^ e + 1 / 2)\<close>.\<close>

definition Math_round :: "nat \<times> int \<Rightarrow> int" where
  "Math_round x =
     (case x of (m, e) \<Rightarrow>
        if 0 \<le> e then int (m * 2 ^ nat e)
        else int ((2 * m + 2 ^ nat (- e)) div (2 * 2 ^ nat (- e))))"

datatype js_number = NaN | Num int

text \<open>
  \<^verbatim>\<open>Math.round((c / n) * 100)\<close> for array lengths \<open>c\<close> and \<open>n\<close>: \<open>0 / 0\<close> is \<open>NaN\<close>, which
  \<open>Math.round\<close> returns as it is; \<open>0 / n\<close> is \<open>0\<close>.  A positive \<open>c\<close> with \<open>n = 0\<close>
  gives \<open>Infinity\<close>; it cannot occur, since \<open>c\<close> counts elements of a list of length
  \<open>n\<close>, and is mapped to \<open>NaN\<close> as well.
\<close>

definition percentage :: "nat \<Rightarrow> nat \<Rightarrow> js_number" where
  "percentage c n =
     (if n = 0 then NaN
      else if c = 0 then Num 0
      else Num (Math_round (times100 (to_double c n))))"

text \<open>
  What the specification asks for: \<open>100 * c / n\<close> rounded to the nearest whole number,
  a half going up, that is \<open>floor (100 * c / n + 1 / 2)\<close>.
\<close>

definition round_half_up_percent :: "nat \<Rightarrow> nat \<Rightarrow> int" where
  "round_half_up_percent c n = (200 * int c + int n) div (2 * int n)"

section \<open>The Quiz component\<close>

record QuizQuestion =
  question_id :: string
  question :: string
  options :: "string list"
  correctAnswer :: int
  explanation :: "string option"
  audioText :: "string option"

record QuizResult =
  questionId :: string
  selected :: "int option"
  correct :: bool
  timeSpent :: int

text \<open>
  One render of the component sees the seven \<open>useState\<close> cells as they are at that
  render.
\<close>

record Render =
  currentQuestionIndex :: nat
  selectedAnswer :: "int option"
  showResult :: bool
  results :: "QuizResult list"
  timeLeft :: int
  startTime :: int
  isComplete :: bool

text \<open>
  The state of the component: the cells, the render that the running interval belongs
  to (none when no interval runs), the callbacks handed to \<open>setTimeout\<close> that have not
  run yet (each with the \<open>currentQuestionIndex\<close> and the \<open>newResults\<close> it closes over),
  and the calls of the \<open>onComplete\<close> property made so far.  The properties \<open>questions\<close>
  and \<open>timeLimit\<close> are parameters of the handlers.  \<open>Date.now()\<close> is the parameter
  \<open>now\<close>, in milliseconds.

  A handler is a closure of one render of the component.  It reads the cells as that
  render saw them, its argument \<open>render\<close>, and its \<open>set...\<close> calls change the current
  state, its argument \<open>s\<close>.  An updater passed to a setter, as in
  \<^verbatim>\<open>setCurrentQuestionIndex(prev => prev + 1)\<close>, reads the current state.
\<close>

record Quiz = Render +
  interval :: "Render option"
  timeouts :: "(nat \<times> QuizResult list) list"
  onComplete_calls :: "(js_number \<times> QuizResult list) list"

definition render_of :: "Quiz \<Rightarrow> Render" where
  "render_of s =
     \<lparr>currentQuestionIndex = currentQuestionIndex s, selectedAnswer = selectedAnswer s,
      showResult = showResult s, results = results s, timeLeft = timeLeft s,
      startTime = startTime s, isComplete = isComplete s\<rparr>"

text \<open>
  The timer effect, with the dependencies \<open>[currentQuestionIndex, isComplete]\<close>: it
  clears the interval of its last run and, unless \<open>isComplete\<close>, starts one whose
  callback calls the \<open>handleTimeUp\<close> of the render the effect belongs to.
\<close>

definition timerEffect :: "Quiz \<Rightarrow> Quiz" where
  "timerEffect s = s\<lparr>interval := (if isComplete s then None else Some (render_of s))\<rparr>"

text \<open>
  The first render and its effects: the interval belongs to the first render, and the
  effect with the dependencies \<open>[currentQuestionIndex, timeLimit]\<close> sets \<open>timeLeft\<close> and
  \<open>startTime\<close> once more.  The two readings of the clock, by the initial state and by
  the effect, are taken to fall in the same millisecond \<open>now\<close>.
\<close>

definition mount :: "int \<Rightarrow> int \<Rightarrow> Quiz" where
  "mount timeLimit now =
     \<lparr>currentQuestionIndex = 0, selectedAnswer = None, showResult = False, results = [],
      timeLeft = timeLimit, startTime = now, isComplete = False,
      interval = Some \<lparr>currentQuestionIndex = 0, selectedAnswer = None, showResult = False,
                        results = [], timeLeft = timeLimit, startTime = now,
                        isComplete = False\<rparr>,
      timeouts = [], onComplete_calls = []\<rparr>"

definition handleAnswerSelect :: "int \<Rightarrow> 'a Render_scheme \<Rightarrow> Quiz \<Rightarrow> Quiz outcome" where
  "handleAnswerSelect answerIndex render s =
     (if showResult render then Returns s
      else Returns (s\<lparr>selectedAnswer := Some answerIndex\<rparr>))"

text \<open>
  \<open>currentQuestion\<close> is \<open>questions[currentQuestionIndex]\<close>, which is \<open>undefined\<close> past
  the end of the array; reading \<open>correctAnswer\<close> of it then throws.
\<close>

definition handleAnswerSubmit ::
  "QuizQuestion list \<Rightarrow> int \<Rightarrow> 'a Render_scheme \<Rightarrow> Quiz \<Rightarrow> Quiz outcome" where
  "handleAnswerSubmit questions now render s =
     (if currentQuestionIndex render < length questions then
        let currentQuestion = questions ! currentQuestionIndex render;
            timeSpent = (now - startTime render) div 1000;
            isCorrect = (selectedAnswer render = Some (correctAnswer currentQuestion));
            result = \<lparr>questionId = question_id currentQuestion,
                      selected = selectedAnswer render,
                      correct = isCorrect,
                      timeSpent = timeSpent\<rparr>;
            newResults = results render @ [result]
        in Returns (s\<lparr>results := newResults, showResult := True,
                       timeouts := timeouts s @ [(currentQuestionIndex render, newResults)]\<rparr>)
      else Throws ''TypeError'')"

definition handleTimeUp ::
  "QuizQuestion list \<Rightarrow> int \<Rightarrow> 'a Render_scheme \<Rightarrow> Quiz \<Rightarrow> Quiz outcome" where
  "handleTimeUp questions now render s =
     (if \<not> showResult render then handleAnswerSubmit questions now render s else Returns s)"

definition handleNextQuestion :: "Quiz \<Rightarrow> Quiz outcome" where
  "handleNextQuestion s =
     Returns (s\<lparr>currentQuestionIndex := currentQuestionIndex s + 1,
                 selectedAnswer := None, showResult := False\<rparr>)"

definition handleQuizComplete :: "QuizResult list \<Rightarrow> Quiz \<Rightarrow> Quiz outcome" where
  "handleQuizComplete finalResults s =
     (let score = percentage (length (filter correct finalResults)) (length finalResults)
      in Returns (s\<lparr>isComplete := True,
                     onComplete_calls := onComplete_calls s @ [(score, finalResults)]\<rparr>))"

text \<open>
  The callback that \<open>handleAnswerSubmit\<close> defers by two seconds.  Its test reads the
  \<open>currentQuestionIndex\<close> of its closure; the subtraction is on JavaScript numbers.
\<close>

definition afterDelay :: "QuizQuestion list \<Rightarrow> nat \<times> QuizResult list \<Rightarrow> Quiz \<Rightarrow> Quiz outcome" where
  "afterDelay questions closure s =
     (case closure of (index, newResults) \<Rightarrow>
        if int index < int (length questions) - 1 then handleNextQuestion s
        else handleQuizComplete newResults s)"

text \<open>
  Rendering the question view reads \<open>currentQuestion.question\<close>, which throws when the
  index is past the end of the array; the result card, rendered once \<open>isComplete\<close>, does
  not read \<open>currentQuestion\<close>.
\<close>

definition renders :: "QuizQuestion list \<Rightarrow> Quiz \<Rightarrow> bool" where
  "renders questions s \<longleftrightarrow> isComplete s \<or> currentQuestionIndex s < length questions"

text \<open>
  The effects after a render that follows the state \<open>before\<close>: the timer effect runs
  when \<open>currentQuestionIndex\<close> or \<open>isComplete\<close> has changed, and the interval it starts
  belongs to this render, so it sees \<open>timeLeft\<close> and \<open>startTime\<close> as they are before
  the second effect resets them; the second effect runs when \<open>currentQuestionIndex\<close>
  has changed.
\<close>

definition runEffects :: "int \<Rightarrow> int \<Rightarrow> Quiz \<Rightarrow> Quiz \<Rightarrow> Quiz" where
  "runEffects timeLimit now before s =
     (let timed = (if currentQuestionIndex s \<noteq> currentQuestionIndex before \<or>
                      isComplete s \<noteq> isComplete before
                   then timerEffect s else s)
      in if currentQuestionIndex s \<noteq> currentQuestionIndex before
         then timed\<lparr>timeLeft := timeLimit, startTime := now\<rparr> else timed)"

text \<open>
  The events that reach the component.

  A tick of the one-second interval, while one runs, applies the updater of
  \<open>setTimeLeft\<close> to the current \<open>timeLeft\<close>; with one second or less left the updater
  calls the \<open>handleTimeUp\<close> of the render the interval belongs to.  That render is the
  first one or the one in which the index last changed: what it reads of \<open>showResult\<close>,
  \<open>selectedAnswer\<close>, \<open>results\<close> and \<open>startTime\<close> is what these cells held then.

  The option buttons and the submit button carry the handlers of the latest render,
  which reads the current state.  They belong to the question view, which is not
  rendered once \<open>isComplete\<close>; the submit button is rendered only while \<open>!showResult\<close>
  and a selection exists.

  When the delay of the oldest deferred callback has elapsed, the callback runs, its
  updates are applied together (React batches the updates of one callback), the
  component renders and the effects run.
\<close>

datatype quiz_event = TimerTick int | OptionClick int | SubmitClick int | DelayElapsed int

definition then_do :: "'a outcome \<Rightarrow> ('a \<Rightarrow> 'a) \<Rightarrow> 'a outcome" where
  "then_do r f = (case r of Returns s \<Rightarrow> Returns (f s) | Throws e \<Rightarrow> Throws e)"

fun quiz_step :: "QuizQuestion list \<Rightarrow> int \<Rightarrow> quiz_event \<Rightarrow> Quiz \<Rightarrow> Quiz outcome" where
  "quiz_step questions timeLimit (TimerTick now) s =
     (case interval s of
        None \<Rightarrow> Returns s
      | Some render \<Rightarrow>
          if timeLeft s \<le> 1 then
            then_do (handleTimeUp questions now render s) (\<lambda>s'. s'\<lparr>timeLeft := 0\<rparr>)
          else Returns (s\<lparr>timeLeft := timeLeft s - 1\<rparr>))"
| "quiz_step questions timeLimit (OptionClick answerIndex) s =
     (if isComplete s then Returns s else handleAnswerSelect answerIndex s s)"
| "quiz_step questions timeLimit (SubmitClick now) s =
     (if \<not> isComplete s \<and> \<not> showResult s \<and> selectedAnswer s \<noteq> None
      then handleAnswerSubmit questions now s s else Returns s)"
| "quiz_step questions timeLimit (DelayElapsed now) s =
     (case timeouts s of
        [] \<Rightarrow> Returns s
      | closure # rest \<Rightarrow>
          (case afterDelay questions closure (s\<lparr>timeouts := rest\<rparr>) of
             Throws error \<Rightarrow> Throws error
           | Returns s' \<Rightarrow>
               if renders questions s' then Returns (runEffects timeLimit now s s')
               else Throws ''TypeError''))"

fun quiz_run :: "QuizQuestion list \<Rightarrow> int \<Rightarrow> quiz_event list \<Rightarrow> Quiz \<Rightarrow> Quiz outcome" where
  "quiz_run questions timeLimit [] s = Returns s"
| "quiz_run questions timeLimit (e # es) s =
     (case quiz_step questions timeLimit e s of
        Returns s' \<Rightarrow> quiz_run questions timeLimit es s'
      | Throws x \<Rightarrow> Throws x)"

text \<open>
  What holds of the interval in every state a session reaches: it runs exactly while
  the quiz is not complete, and its render is at the current question, with no lock
  and no selection, and with the records of the current state as long as the current
  question is not locked.
\<close>

definition interval_inv :: "QuizQuestion list \<Rightarrow> Quiz \<Rightarrow> bool" where
  "interval_inv questions s \<longleftrightarrow>
     (case interval s of
        None \<Rightarrow> isComplete s
      | Some render \<Rightarrow>
          \<not> isComplete s \<and> currentQuestionIndex s < length questions \<and>
          currentQuestionIndex render = currentQuestionIndex s \<and>
          \<not> showResult render \<and> selectedAnswer render = None \<and>
          (\<not> showResult s \<longrightarrow> results render = results s))"

text \<open>
  A tick that arrives with one second or less left while the current question is
  already locked: the \<open>handleTimeUp\<close> of the interval does not see the lock.  A session
  has such a tick or it has none.
\<close>

fun tick_on_locked :: "quiz_event \<Rightarrow> Quiz \<Rightarrow> bool" where
  "tick_on_locked (TimerTick now) s \<longleftrightarrow> interval s \<noteq> None \<and> timeLeft s \<le> 1 \<and> showResult s"
| "tick_on_locked other s \<longleftrightarrow> False"

fun ticks_on_locked :: "QuizQuestion list \<Rightarrow> int \<Rightarrow> quiz_event list \<Rightarrow> Quiz \<Rightarrow> bool" where
  "ticks_on_locked questions timeLimit [] s \<longleftrightarrow> False"
| "ticks_on_locked questions timeLimit (e # es) s \<longleftrightarrow>
     tick_on_locked e s \<or>
     (case quiz_step questions timeLimit e s of
        Returns s' \<Rightarrow> ticks_on_locked questions timeLimit es s'
      | Throws x \<Rightarrow> False)"

text \<open>
  The invariant of the sessions without such a tick: the index is inside the list, the
  records are those of the first questions in order, a locked question has exactly one
  pending callback, and a complete quiz has reported its score once.
\<close>

definition quiz_inv :: "QuizQuestion list \<Rightarrow> Quiz \<Rightarrow> bool" where
  "quiz_inv questions s \<longleftrightarrow>
     interval_inv questions s \<and>
     currentQuestionIndex s < length questions \<and>
     map questionId (results s) = map question_id (take (length (results s)) questions) \<and>
     (if isComplete s then
        showResult s \<and> timeouts s = [] \<and>
        currentQuestionIndex s + 1 = length questions \<and>
        length (results s) = length questions \<and>
        onComplete_calls s =
          [(percentage (length (filter correct (results s))) (length questions), results s)]
      else
        onComplete_calls s = [] \<and>
        (if showResult s then
           timeouts s = [(currentQuestionIndex s, results s)] \<and>
           length (results s) = currentQuestionIndex s + 1
         else timeouts s = [] \<and> length (results s) = currentQuestionIndex s))"

definition returns_with :: "('a \<Rightarrow> bool) \<Rightarrow> 'a outcome \<Rightarrow> bool" where
  "returns_with P r = (case r of Returns s \<Rightarrow> P s | Throws e \<Rightarrow> False)"


subsection \<open>Sample sessions\<close>

definition sampleQuestion :: QuizQuestion where
  "sampleQuestion =
     \<lparr>question_id = ''q1'', question = ''Pick b'', options = [''a'', ''b''],
      correctAnswer = 1, explanation = None, audioText = None\<rparr>"



text \<open>
  Ticks a second apart, twenty-nine and thirty of them, and thirty ticks that the
  browser delivers late.
\<close>

definition twentyNineTicks :: "quiz_event list" where
  "twentyNineTicks = map (\<lambda>k. TimerTick (1000 * int k)) [1..<30]"

definition thirtyTicks :: "quiz_event list" where
  "thirtyTicks = twentyNineTicks @ [TimerTick 30000]"


text \<open>The render the interval of the first question belongs to.\<close>

definition firstRender :: Render where
  "firstRender =
     \<lparr>currentQuestionIndex = 0, selectedAnswer = None, showResult = False, results = [],
      timeLeft = 30, startTime = 0, isComplete = False\<rparr>"

text \<open>
  A user who picks option \<open>1\<close> of the first question and submits it after two and a
  half seconds; and the same user two seconds later, when the deferred callback runs.
\<close>

definition answerFirst :: "quiz_event list" where
  "answerFirst = [TimerTick 1000, TimerTick 2000, OptionClick 1, SubmitClick 2500]"


text \<open>The state after \<open>answerFirst\<close>.\<close>

definition lockedQuiz :: Quiz where
  "lockedQuiz =
     \<lparr>currentQuestionIndex = 0, selectedAnswer = Some 1, showResult = True,
      results = [\<lparr>questionId = ''q1'', selected = Some 1, correct = True, timeSpent = 2\<rparr>],
      timeLeft = 28, startTime = 0, isComplete = False,
      interval = Some firstRender,
      timeouts = [(0, [\<lparr>questionId = ''q1'', selected = Some 1, correct = True,
                         timeSpent = 2\<rparr>])],
      onComplete_calls = []\<rparr>"





text \<open>
  A quiz of three questions whose first question runs out, with one more tick before
  the two seconds of the deferred callback are over, and the state after the callbacks
  have run.
\<close>

definition expireTwice :: "quiz_event list" where
  "expireTwice = thirtyTicks @ [TimerTick 31000, DelayElapsed 32000, DelayElapsed 33000]"


text \<open>Forty records, the first twenty-three of them correct.\<close>

definition fortyResults :: "QuizResult list" where
  "fortyResults =
     map (\<lambda>k. \<lparr>questionId = replicate (Suc k) CHR ''q'',
               selected = Some (if k < 23 then 1 else 0),
               correct = (k < 23), timeSpent = 3\<rparr>) [0..<40]"

section \<open>The text-to-speech service\<close>

text \<open>
  An asynchronous function is modelled by what it does up to the moment its promise
  settles, in order, and by how the promise settles.  What the network, the response
  body, the audio element and the browser do is given by a \<open>world\<close>.
\<close>

datatype 'a promise = Resolved 'a | Rejected string

datatype effect =
    Fetch string string string "(string \<times> string) option"
  | ReadBody
  | CreateObjectURL
  | AudioPlay
  | PlaybackEnded
  | PlaybackError
  | RevokeObjectURL
  | ConsoleError string
  | SynthSpeak string string "string option"

text \<open>
  \<open>Fetch method url key body\<close> is a call of \<open>fetch\<close> with the \<open>xi-api-key\<close> header \<open>key\<close>;
  the body of a synthesis request is its \<open>text\<close> and \<open>model_id\<close> (the voice settings are
  constants).  \<open>SynthSpeak text lang rate\<close> is \<open>speechSynthesis.speak\<close> of an utterance;
  the rate is the decimal the source assigns, if it assigns one.
\<close>

fun is_fetch :: "effect \<Rightarrow> bool" where
  "is_fetch (Fetch method url key body) = True"
| "is_fetch other = False"

datatype fetch_outcome = NetworkError | Response nat

datatype body_outcome = BodyFails | BodyRead

datatype audio_outcome = PlayRejected | AudioFails | AudioEnds

datatype json = JNull | JBool bool | JNum int | JStr string | JArr "json list"
  | JObj "(string \<times> json) list"

datatype json_outcome = JsonFails | Json json

record world =
  fetch_result :: fetch_outcome
  blob_result :: body_outcome
  json_result :: json_outcome
  audio_result :: audio_outcome
  hasSpeechSynthesis :: bool

text \<open>\<open>response.ok\<close>: the status is in the range 200 to 299.\<close>

definition ok :: "nat \<Rightarrow> bool" where
  "ok status \<longleftrightarrow> 200 \<le> status \<and> status \<le> 299"

record TextToSpeechService =
  apiKey :: string
  baseUrl :: string
  defaultVoiceId :: string
  defaultModel :: string

definition new_TextToSpeechService :: "string \<Rightarrow> TextToSpeechService" where
  "new_TextToSpeechService key =
     \<lparr>apiKey = key, baseUrl = ''https://api.elevenlabs.io/v1'',
      defaultVoiceId = ''Rachel'', defaultModel = ''eleven_monolingual_v1''\<rparr>"

definition fallbackSpeak :: "world \<Rightarrow> string \<Rightarrow> effect list" where
  "fallbackSpeak w text =
     (if hasSpeechSynthesis w then [SynthSpeak text ''en-US'' (Some ''0.8'')] else [])"

text \<open>
  The body of the \<open>try\<close> block of \<open>speak\<close>.  It either throws, or returns the promise
  built around the audio element; that promise is returned, not awaited, so that it
  settles outside the \<open>try\<close> block.  \<open>voiceId || this.defaultVoiceId\<close> takes the
  default for a missing and for an empty voice.
\<close>

datatype 'a attempt = Threw string | Returned 'a

definition speak_request :: "TextToSpeechService \<Rightarrow> string \<Rightarrow> string option \<Rightarrow> effect" where
  "speak_request this text voiceId =
     (let voice = (case voiceId of None \<Rightarrow> defaultVoiceId this
                   | Some v \<Rightarrow> if v = [] then defaultVoiceId this else v)
      in Fetch ''POST'' (baseUrl this @ ''/text-to-speech/'' @ voice) (apiKey this)
           (Some (text, defaultModel this)))"

definition speak_try ::
  "TextToSpeechService \<Rightarrow> world \<Rightarrow> string \<Rightarrow> string option
     \<Rightarrow> effect list \<times> (effect list \<times> unit promise) attempt" where
  "speak_try this w text voiceId =
     (case fetch_result w of
        NetworkError \<Rightarrow> ([speak_request this text voiceId], Threw ''TypeError: Failed to fetch'')
      | Response status \<Rightarrow>
          if \<not> ok status then ([speak_request this text voiceId], Threw ''ElevenLabs API error'')
          else
            (case blob_result w of
               BodyFails \<Rightarrow> ([speak_request this text voiceId, ReadBody], Threw ''TypeError'')
             | BodyRead \<Rightarrow>
                 ([speak_request this text voiceId, ReadBody, CreateObjectURL],
                  Returned
                    (case audio_result w of
                       AudioEnds \<Rightarrow> ([AudioPlay, PlaybackEnded, RevokeObjectURL], Resolved ())
                     | AudioFails \<Rightarrow>
                         ([AudioPlay, PlaybackError, RevokeObjectURL], Rejected ''error event'')
                     | PlayRejected \<Rightarrow> ([AudioPlay], Rejected ''play rejected'')))))"

definition speak ::
  "TextToSpeechService \<Rightarrow> world \<Rightarrow> string \<Rightarrow> string option \<Rightarrow> effect list \<times> unit promise" where
  "speak this w text voiceId =
     (case speak_try this w text voiceId of
        (done, Threw error) \<Rightarrow>
          (done @ [ConsoleError ''Text-to-speech error:''] @ fallbackSpeak w text, Resolved ())
      | (done, Returned (later, settled)) \<Rightarrow> (done @ later, settled))"

text \<open>
  \<open>data.voices\<close>: reading a property of \<open>null\<close> throws; an object has the property it
  was parsed with (the last one of a repeated key); every other value has none, which
  is \<open>undefined\<close>, here \<open>None\<close>.
\<close>

definition property :: "json \<Rightarrow> string \<Rightarrow> json option outcome" where
  "property data name =
     (case data of
        JNull \<Rightarrow> Throws ''TypeError''
      | JObj members \<Rightarrow> Returns (map_of (rev members) name)
      | other \<Rightarrow> Returns None)"

fun truthy :: "json \<Rightarrow> bool" where
  "truthy JNull = False"
| "truthy (JBool b) = b"
| "truthy (JNum n) = (n \<noteq> 0)"
| "truthy (JStr s) = (s \<noteq> [])"
| "truthy (JArr xs) = True"
| "truthy (JObj members) = True"

definition voices_request :: "TextToSpeechService \<Rightarrow> effect" where
  "voices_request this = Fetch ''GET'' (baseUrl this @ ''/voices'') (apiKey this) None"

definition getVoices :: "TextToSpeechService \<Rightarrow> world \<Rightarrow> effect list \<times> json promise" where
  "getVoices this w =
     (case fetch_result w of
        NetworkError \<Rightarrow>
          ([voices_request this, ConsoleError ''Error fetching voices:''], Resolved (JArr []))
      | Response status \<Rightarrow>
          if \<not> ok status then
            ([voices_request this, ConsoleError ''Error fetching voices:''], Resolved (JArr []))
          else
            (case json_result w of
               JsonFails \<Rightarrow>
                 ([voices_request this, ReadBody, ConsoleError ''Error fetching voices:''],
                  Resolved (JArr []))
             | Json data \<Rightarrow>
                 (case property data ''voices'' of
                    Throws error \<Rightarrow>
                      ([voices_request this, ReadBody, ConsoleError ''Error fetching voices:''],
                       Resolved (JArr []))
                  | Returns None \<Rightarrow> ([voices_request this, ReadBody], Resolved (JArr []))
                  | Returns (Some voices) \<Rightarrow>
                      ([voices_request this, ReadBody],
                       Resolved (if truthy voices then voices else JArr [])))))"

subsection \<open>The singleton and its user\<close>

text \<open>
  The module variable \<open>ttsService\<close> starts as \<open>null\<close>; \<open>initTTS\<close> is the only function
  that assigns it.  The component keeps the key being edited and the flag \<open>ttsEnabled\<close>.
\<close>

definition initTTS :: "string \<Rightarrow> TextToSpeechService \<times> TextToSpeechService option" where
  "initTTS key = (new_TextToSpeechService key, Some (new_TextToSpeechService key))"

definition getTTS :: "TextToSpeechService option \<Rightarrow> TextToSpeechService option" where
  "getTTS ttsService = ttsService"

record Speech =
  localStorage_key :: "string option"
  elevenLabsKey :: string
  ttsEnabled :: bool
  ttsService :: "TextToSpeechService option"

text \<open>The component before its first effect, over a given content of the local storage.\<close>

definition initialSpeech :: "string option \<Rightarrow> Speech" where
  "initialSpeech stored =
     \<lparr>localStorage_key = stored, elevenLabsKey = [], ttsEnabled = False, ttsService = None\<rparr>"

text \<open>
  The effect run on mount reads \<open>localStorage.getItem('elevenlabs_api_key')\<close>; a missing
  item and an empty one are both falsy.
\<close>

definition loadSavedKey :: "Speech \<Rightarrow> Speech" where
  "loadSavedKey s =
     (case localStorage_key s of
        None \<Rightarrow> s
      | Some savedKey \<Rightarrow>
          if savedKey = [] then s
          else s\<lparr>elevenLabsKey := savedKey, ttsEnabled := True,
                 ttsService := snd (initTTS savedKey)\<rparr>)"

text \<open>
  \<open>String.prototype.trim\<close> removes the white space and the line terminators of
  ECMAScript from both ends.  A string is held here as the bytes of its UTF-8 encoding,
  so each of these characters is the list of its bytes: the six of ASCII, then
  \<open>U+00A0\<close>, \<open>U+1680\<close>, \<open>U+2000\<close> to \<open>U+200A\<close>, \<open>U+2028\<close>, \<open>U+2029\<close>, \<open>U+202F\<close>,
  \<open>U+205F\<close>, \<open>U+3000\<close> and \<open>U+FEFF\<close>.
\<close>

definition white_space :: "string list" where
  "white_space =
     [[CHR 0x09], [CHR 0x0A], [CHR 0x0B], [CHR 0x0C], [CHR 0x0D], [CHR 0x20],
      [CHR 0xC2, CHR 0xA0],
      [CHR 0xE1, CHR 0x9A, CHR 0x80],
      [CHR 0xE2, CHR 0x80, CHR 0x80], [CHR 0xE2, CHR 0x80, CHR 0x81],
      [CHR 0xE2, CHR 0x80, CHR 0x82], [CHR 0xE2, CHR 0x80, CHR 0x83],
      [CHR 0xE2, CHR 0x80, CHR 0x84], [CHR 0xE2, CHR 0x80, CHR 0x85],
      [CHR 0xE2, CHR 0x80, CHR 0x86], [CHR 0xE2, CHR 0x80, CHR 0x87],
      [CHR 0xE2, CHR 0x80, CHR 0x88], [CHR 0xE2, CHR 0x80, CHR 0x89],
      [CHR 0xE2, CHR 0x80, CHR 0x8A],
      [CHR 0xE2, CHR 0x80, CHR 0xA8], [CHR 0xE2, CHR 0x80, CHR 0xA9],
      [CHR 0xE2, CHR 0x80, CHR 0xAF],
      [CHR 0xE2, CHR 0x81, CHR 0x9F],
      [CHR 0xE3, CHR 0x80, CHR 0x80],
      [CHR 0xEF, CHR 0xBB, CHR 0xBF]]"

text \<open>Removing from the front of a string every leading occurrence of one of \<open>marks\<close>.\<close>

function strip :: "string list \<Rightarrow> string \<Rightarrow> string" where
  "strip marks s =
     (case find (\<lambda>w. w \<noteq> [] \<and> take (length w) s = w) marks of
        None \<Rightarrow> s
      | Some w \<Rightarrow> strip marks (drop (length w) s))"
  by pat_completeness auto

termination
proof (relation "measure (\<lambda>(marks, s). length s)")
  show "wf (measure (\<lambda>(marks, s). length s))"
    by simp
next
  fix marks :: "string list" and s w :: string
  assume "find (\<lambda>w. w \<noteq> [] \<and> take (length w) s = w) marks = Some w"
  then have "w \<noteq> []" and "take (length w) s = w"
    by (auto simp: find_Some_iff)
  then have "0 < length w" and "s \<noteq> []"
    by auto
  then show "((marks, drop (length w) s), (marks, s)) \<in> measure (\<lambda>(marks, s). length s)"
    by simp
qed

declare strip.simps [simp del]

definition trim :: "string \<Rightarrow> string" where
  "trim text = rev (strip (map rev white_space) (rev (strip white_space text)))"

definition setElevenLabsKey :: "string \<Rightarrow> Speech \<Rightarrow> Speech" where
  "setElevenLabsKey typed s = s\<lparr>elevenLabsKey := typed\<rparr>"

definition handleSaveElevenLabsKey :: "Speech \<Rightarrow> Speech" where
  "handleSaveElevenLabsKey s =
     (if trim (elevenLabsKey s) \<noteq> [] then
        s\<lparr>localStorage_key := Some (trim (elevenLabsKey s)), ttsEnabled := True,
           ttsService := snd (initTTS (trim (elevenLabsKey s)))\<rparr>
      else s)"

text \<open>
  \<open>handleSpeak\<close> of the component: without \<open>ttsEnabled\<close> it speaks through the browser
  and returns; otherwise it awaits \<open>speak\<close> inside a \<open>try\<close> block and, when that promise
  rejects, logs and speaks through the browser itself.
\<close>

definition handleSpeak :: "Speech \<Rightarrow> world \<Rightarrow> string \<Rightarrow> effect list \<times> unit promise" where
  "handleSpeak s w text =
     (if \<not> ttsEnabled s then
        ((if hasSpeechSynthesis w then [SynthSpeak text ''en-US'' (Some ''0.8'')] else []),
         Resolved ())
      else
        (case getTTS (ttsService s) of
           None \<Rightarrow> ([], Resolved ())
         | Some tts \<Rightarrow>
             (case speak tts w text None of
                (done, Resolved u) \<Rightarrow> (done, Resolved ())
              | (done, Rejected error) \<Rightarrow>
                  (done @ [ConsoleError ''TTS error:''] @
                     (if hasSpeechSynthesis w then [SynthSpeak text ''en-US'' None] else []),
                   Resolved ()))))"

text \<open>
  A caller that awaits one call of \<open>speak\<close> after the other, each in the world it meets:
  a rejected call ends the sequence, as an \<open>await\<close> outside a \<open>try\<close> block does.
\<close>

fun speak_in_turn ::
  "TextToSpeechService \<Rightarrow> (world \<times> string) list \<Rightarrow> effect list \<times> unit promise" where
  "speak_in_turn this [] = ([], Resolved ())"
| "speak_in_turn this ((w, text) # calls) =
     (case speak this w text None of
        (done, Resolved u) \<Rightarrow>
          (case speak_in_turn this calls of (rest, settled) \<Rightarrow> (done @ rest, settled))
      | (done, Rejected error) \<Rightarrow> (done, Rejected error))"

text \<open>
  No audio element starts to play while another one plays; the flag says whether one
  plays at the start of the list.
\<close>

fun one_at_a_time :: "bool \<Rightarrow> effect list \<Rightarrow> bool" where
  "one_at_a_time playing [] = True"
| "one_at_a_time playing (AudioPlay # es) = (\<not> playing \<and> one_at_a_time True es)"
| "one_at_a_time playing (PlaybackEnded # es) = one_at_a_time False es"
| "one_at_a_time playing (PlaybackError # es) = one_at_a_time False es"
| "one_at_a_time playing (e # es) = one_at_a_time playing es"

definition remote_succeeds :: "world \<Rightarrow> bool" where
  "remote_succeeds w \<longleftrightarrow>
     (case fetch_result w of NetworkError \<Rightarrow> False | Response status \<Rightarrow> ok status) \<and>
     blob_result w = BodyRead \<and> audio_result w = AudioEnds"

text \<open>The two ways in which the remote attempt fails.\<close>

definition fails_before_playback :: "world \<Rightarrow> bool" where
  "fails_before_playback w \<longleftrightarrow>
     (case fetch_result w of
        NetworkError \<Rightarrow> True
      | Response status \<Rightarrow> \<not> ok status \<or> blob_result w = BodyFails)"

definition playback_fails :: "world \<Rightarrow> bool" where
  "playback_fails w \<longleftrightarrow>
     (case fetch_result w of NetworkError \<Rightarrow> False | Response status \<Rightarrow> ok status) \<and>
     blob_result w = BodyRead \<and> audio_result w \<noteq> AudioEnds"

subsection \<open>Sample worlds\<close>

definition goodWorld :: world where
  "goodWorld = \<lparr>fetch_result = Response 200, blob_result = BodyRead,
                 json_result = Json (JObj [(''voices'', JArr [JStr ''Rachel''])]),
                 audio_result = AudioEnds, hasSpeechSynthesis = True\<rparr>"

definition brokenAudioWorld :: world where
  "brokenAudioWorld = goodWorld\<lparr>audio_result := AudioFails\<rparr>"

definition serverErrorWorld :: world where
  "serverErrorWorld = goodWorld\<lparr>fetch_result := Response 500\<rparr>"

definition sampleService :: TextToSpeechService where
  "sampleService = new_TextToSpeechService ''sk_test''"

text \<open>The component mounted over a stored key.\<close>

definition configuredSpeech :: Speech where
  "configuredSpeech = loadSavedKey (initialSpeech (Some ''sk_test''))"

section \<open>Proofs: the score\<close>

lemmas double_defs = percentage_def to_double_def times100_def Math_round_def pow2_le_def
  round_half_even_def bitlen.simps

subsection \<open>The model rounds as the doubles do\<close>

text \<open>
  \<open>bitlen n\<close> is the number of binary digits of \<open>n\<close>.
\<close>

lemma bitlen_bounds: "0 < n \<Longrightarrow> 2 ^ (bitlen n - 1) \<le> n \<and> n < 2 ^ bitlen n"
proof (induction n rule: bitlen.induct)
  case (1 n)
  show ?case
  proof (cases "n div 2 = 0")
    case True
    with "1.prems" have "n = 1" by (simp add: div_eq_0_iff) 
    then show ?thesis by (simp add: bitlen.simps)
  next
    case False
    with "1.IH" "1.prems" have IH: "2 ^ (bitlen (n div 2) - 1) \<le> n div 2"
      "n div 2 < 2 ^ bitlen (n div 2)" by simp_all
    from False have pos: "0 < bitlen (n div 2)" by (simp add: bitlen.simps [of "n div 2"])
    have len: "bitlen n = Suc (bitlen (n div 2))"
      using "1.prems" by (simp add: bitlen.simps [of n])
    from pos have double: "(2::nat) ^ bitlen (n div 2) = 2 * 2 ^ (bitlen (n div 2) - 1)"
      by (cases "bitlen (n div 2)") simp_all
    from IH(1) have low: "2 * 2 ^ (bitlen (n div 2) - 1) \<le> n" by arith
    from IH(2) have high: "n < 2 * 2 ^ bitlen (n div 2)" by arith
    from low high double len show ?thesis by simp
  qed
qed

lemma bitlen_pos: "0 < n \<Longrightarrow> 0 < bitlen n"
  by (simp add: bitlen.simps [of n])

lemma bitlen_real:
  assumes "0 < n"
  shows "2 powi (int (bitlen n) - 1) \<le> real n" and "real n < 2 powi int (bitlen n)"
proof -
  from bitlen_bounds [OF assms] have lo: "2 ^ (bitlen n - 1) \<le> n" and hi: "n < 2 ^ bitlen n"
    by simp_all
  from bitlen_pos [OF assms] have "int (bitlen n) - 1 = int (bitlen n - 1)" by simp
  then have "(2::real) powi (int (bitlen n) - 1) = 2 ^ (bitlen n - 1)"
    by (simp only: power_int_of_nat)
  also from lo have "\<dots> \<le> real n"
    by (metis of_nat_le_iff of_nat_numeral of_nat_power)
  finally show "2 powi (int (bitlen n) - 1) \<le> real n" .
  from hi have "real n < 2 ^ bitlen n"
    by (metis of_nat_less_iff of_nat_numeral of_nat_power)
  then show "real n < 2 powi int (bitlen n)" by simp
qed

text \<open>
  \<open>pow2_le\<close> compares the quotient with a power of two.
\<close>

lemma pow2_le_real:
  assumes "0 < b"
  shows "pow2_le k a b \<longleftrightarrow> 2 powi k \<le> real a / real b"
proof (cases "0 \<le> k")
  case True
  define P where "P = (2::real) ^ nat k"
  have P: "0 < P" by (simp add: P_def)
  from True have pk: "(2::real) powi k = P" by (simp add: power_int_def P_def)
  have "pow2_le k a b = (real b * P \<le> real a)"
    using True unfolding pow2_le_def P_def
    by (simp only: if_True) (metis of_nat_le_iff of_nat_mult of_nat_numeral of_nat_power)
  also have "\<dots> = (P \<le> real a / real b)"
    using assms by (simp add: field_simps)
  finally show ?thesis by (simp only: pk)
next
  case False
  define P where "P = (2::real) ^ nat (- k)"
  have P: "0 < P" by (simp add: P_def)
  from False have pk: "(2::real) powi k = 1 / P"
    by (simp add: power_int_def P_def power_one_over inverse_eq_divide)
  have "pow2_le k a b = (real b \<le> real a * P)"
    using False unfolding pow2_le_def P_def
    by (simp only: if_False) (metis of_nat_le_iff of_nat_mult of_nat_numeral of_nat_power)
  also have "\<dots> = (1 / P \<le> real a / real b)"
    using assms P by (simp add: field_simps)
  finally show ?thesis by (simp only: pk)
qed

text \<open>
  \<open>round_half_even a b\<close> is an integer nearest to \<open>a / b\<close>, the even one of two.
\<close>

lemma round_half_even_nearest:
  assumes "0 < b"
  shows "2 * (a - b * round_half_even a b) \<le> b \<and> 2 * (b * round_half_even a b - a) \<le> b"
proof -
  define q r where "q = a div b" and "r = a mod b"
  have a: "a = b * q + r" by (simp add: q_def r_def)
  have r: "r < b" using assms by (simp add: r_def)
  have up: "b * (q + 1) = b * q + b" by (simp add: algebra_simps)
  have val: "round_half_even a b = q \<or> round_half_even a b = q + 1"
    by (simp add: round_half_even_def Let_def q_def)
  have down: "2 * r \<le> b" if "round_half_even a b = q"
    using that by (auto simp: round_half_even_def Let_def q_def r_def split: if_splits)
  have above: "b \<le> 2 * r" if "round_half_even a b = q + 1"
    using that by (auto simp: round_half_even_def Let_def q_def r_def split: if_splits)
  from val show ?thesis
  proof
    assume v: "round_half_even a b = q"
    with down a show ?thesis by simp
  next
    assume v: "round_half_even a b = q + 1"
    with above a r up show ?thesis by simp
  qed
qed

lemma round_half_even_real:
  assumes "0 < b"
  shows "\<bar>real a / real b - real (round_half_even a b)\<bar> \<le> 1 / 2"
proof -
  let ?m = "round_half_even a b"
  from round_half_even_nearest [OF assms, of a]
  have lo: "2 * (a - b * ?m) \<le> b" and hi: "2 * (b * ?m - a) \<le> b" by simp_all
  have "2 * \<bar>real a - real b * real ?m\<bar> \<le> real b"
  proof (cases "b * ?m \<le> a")
    case True
    then have "real b * real ?m \<le> real a"
      by (metis of_nat_le_iff of_nat_mult)
    then have "\<bar>real a - real b * real ?m\<bar> = real (a - b * ?m)"
      using True by (simp add: of_nat_diff)
    moreover from lo have "2 * real (a - b * ?m) \<le> real b"
      by (metis of_nat_le_iff of_nat_mult of_nat_numeral)
    ultimately show ?thesis by simp
  next
    case False
    then have less: "a \<le> b * ?m" by simp
    then have "real a \<le> real b * real ?m"
      by (metis of_nat_le_iff of_nat_mult)
    then have "\<bar>real a - real b * real ?m\<bar> = real (b * ?m - a)"
      using less by (simp add: of_nat_diff)
    moreover from hi have "2 * real (b * ?m - a) \<le> real b"
      by (metis of_nat_le_iff of_nat_mult of_nat_numeral)
    ultimately show ?thesis by simp
  qed
  moreover have "real a / real b - real ?m = (real a - real b * real ?m) / real b"
    using assms by (simp add: field_simps)
  ultimately show ?thesis
    using assms by (simp add: abs_divide field_simps)
qed


lemma quotient_between_powers:
  assumes "0 < a" and "0 < b"
  defines "k \<equiv> int (bitlen a) - int (bitlen b)"
  shows "2 powi (k - 1) \<le> real a / real b" and "real a / real b < 2 powi (k + 1)"
proof -
  note A = bitlen_real [OF assms(1)] and B = bitlen_real [OF assms(2)]
  have pos: "0 < real b" using assms(2) by simp
  have "(2::real) powi (k - 1) = 2 powi (int (bitlen a) - 1) / 2 powi int (bitlen b)"
    unfolding k_def by (simp add: power_int_diff)
  also have "\<dots> \<le> real a / 2 powi int (bitlen b)"
    using A(1) by (simp add: divide_right_mono)
  also have "\<dots> \<le> real a / real b"
    using B(2) pos by (simp add: frac_le)
  finally show "2 powi (k - 1) \<le> real a / real b" .
  have low: "(0::real) < 2 powi (int (bitlen b) - 1)" by simp
  have "real a / real b \<le> real a / 2 powi (int (bitlen b) - 1)"
    using B(1) low by (simp add: frac_le)
  also have "\<dots> < 2 powi int (bitlen a) / 2 powi (int (bitlen b) - 1)"
    using A(2) low by (simp add: divide_strict_right_mono)
  also have "\<dots> = 2 powi (int (bitlen a) - (int (bitlen b) - 1))"
    by (rule power_int_diff [symmetric]) simp
  also have "int (bitlen a) - (int (bitlen b) - 1) = k + 1"
    by (simp add: k_def)
  finally show "real a / real b < 2 powi (k + 1)" .
qed

text \<open>
  \<open>to_double a b\<close> has a significand of 53 bits and is a nearest such number to
  \<open>a / b\<close>: the error is at most half a unit of the last place.  The same holds of
  \<open>times100\<close> and the exact product.
\<close>

lemma to_double_nearest:
  assumes "0 < a" and "0 < b"
  shows "case to_double a b of (m, e) \<Rightarrow>
           2 ^ 52 \<le> m \<and> m \<le> 2 ^ 53 \<and>
           \<bar>real a / real b - real m * 2 powi e\<bar> \<le> 2 powi e / 2"
proof -
  define x where "x = real a / real b"
  define k where "k = int (bitlen a) - int (bitlen b)"
  define E where "E = (if pow2_le k a b then k else k - 1)"
  define e where "e = E - 52"
  define A where "A = (if 0 \<le> e then a else a * 2 ^ nat (- e))"
  define B where "B = (if 0 \<le> e then b * 2 ^ nat e else b)"
  define m where "m = round_half_even A B"
  define y where "y = x / 2 powi e"
  have result: "to_double a b = (m, e)"
    by (simp add: to_double_def Let_def m_def A_def B_def e_def E_def k_def)
  from quotient_between_powers [OF assms] have between: "2 powi (k - 1) \<le> x" "x < 2 powi (k + 1)"
    by (simp_all add: x_def k_def)
  have E: "2 powi E \<le> x" "x < 2 powi (E + 1)"
    using between pow2_le_real [OF assms(2), of k a]
    by (auto simp: E_def x_def)
  have scale: "(2::real) powi E = 2 ^ 52 * 2 powi e" "(2::real) powi (E + 1) = 2 ^ 53 * 2 powi e"
    by (simp_all add: e_def power_int_diff power_int_add)
  have epos: "(0::real) < 2 powi e" by simp
  from E scale epos have y: "2 ^ 52 \<le> y" "y < 2 ^ 53"
    by (simp_all add: y_def field_simps)
  have Bpos: "0 < B" using assms(2) by (simp add: B_def)
  have quotient: "real A / real B = y"
  proof (cases "0 \<le> e")
    case True
    then have "(2::real) powi e = 2 ^ nat e" by (simp add: power_int_def)
    with True show ?thesis by (simp add: A_def B_def y_def x_def)
  next
    case False
    then have "(2::real) powi e = 1 / 2 ^ nat (- e)"
      by (simp add: power_int_def power_one_over inverse_eq_divide)
    with False show ?thesis by (simp add: A_def B_def y_def x_def)
  qed
  from round_half_even_real [OF Bpos, of A] quotient have near: "\<bar>y - real m\<bar> \<le> 1 / 2"
    by (simp add: m_def)
  from near have around: "y - 1 / 2 \<le> real m" "real m \<le> y + 1 / 2"
    by linarith+
  from y have bounds: "4503599627370496 \<le> y" "y < 9007199254740992"
    by simp_all
  from around(1) bounds(1) have "4503599627370495 < real m"
    by linarith
  then have "real 4503599627370495 < real m" by simp
  then have "4503599627370495 < m" by (simp only: of_nat_less_iff)
  then have low: "2 ^ 52 \<le> m" by simp
  from around(2) bounds(2) have "real m < 9007199254740993"
    by linarith
  then have "real m < real 9007199254740993" by simp
  then have "m < 9007199254740993" by (simp only: of_nat_less_iff)
  then have high: "m \<le> 2 ^ 53" by simp
  have "x - real m * 2 powi e = (y - real m) * 2 powi e"
    by (simp add: y_def field_simps)
  then have "\<bar>x - real m * 2 powi e\<bar> = \<bar>y - real m\<bar> * 2 powi e"
    by (simp add: abs_mult)
  also from near epos have "\<dots> \<le> 1 / 2 * 2 powi e"
    by (simp only: mult_le_cancel_right_pos)
  finally have "\<bar>x - real m * 2 powi e\<bar> \<le> 2 powi e / 2" by simp
  with low high result show ?thesis
    by (simp add: x_def)
qed


lemma round_half_even_tie: "2 * (a mod b) = b \<Longrightarrow> even (round_half_even a b)"
  by (auto simp: round_half_even_def Let_def)

lemma floor_quotient: "\<lfloor>real a / real b\<rfloor> = int (a div b)"
  by (simp add: floor_divide_of_nat_eq)

text \<open>
  \<open>Math_round\<close> and the rounding of the specification are floors of the value plus a
  half.
\<close>

lemma Math_round_floor: "Math_round (m, e) = \<lfloor>real m * 2 powi e + 1 / 2\<rfloor>"
proof (cases "0 \<le> e")
  case True
  then have whole: "real m * 2 powi e = real (m * 2 ^ nat e)"
    by (simp add: power_int_def)
  have "\<lfloor>real (m * 2 ^ nat e) + 1 / 2\<rfloor> = int (m * 2 ^ nat e)"
    by (rule floor_unique) simp_all
  then have "\<lfloor>real m * 2 powi e + 1 / 2\<rfloor> = int (m * 2 ^ nat e)"
    by (simp only: whole)
  with True show ?thesis by (simp add: Math_round_def)
next
  case False
  define d where "d = (2::nat) ^ nat (- e)"
  have d: "0 < d" by (simp add: d_def)
  from False have "(2::real) powi e = 1 / real d"
    by (simp add: power_int_def power_one_over inverse_eq_divide d_def)
  then have "real m * 2 powi e + 1 / 2 = real (2 * m + d) / real (2 * d)"
    using d by (simp add: field_simps)
  then have "\<lfloor>real m * 2 powi e + 1 / 2\<rfloor> = int ((2 * m + d) div (2 * d))"
    by (simp only: floor_quotient)
  with False show ?thesis by (simp add: Math_round_def d_def)
qed

lemma round_half_up_percent_floor:
  "0 < n \<Longrightarrow> round_half_up_percent c n = \<lfloor>100 * real c / real n + 1 / 2\<rfloor>"
proof -
  assume n: "0 < n"
  then have "100 * real c / real n + 1 / 2 = real (200 * c + n) / real (2 * n)"
    by (simp add: field_simps)
  then have "\<lfloor>100 * real c / real n + 1 / 2\<rfloor> = int ((200 * c + n) div (2 * n))"
    by (simp only: floor_quotient)
  then show ?thesis
    by (simp add: round_half_up_percent_def zdiv_int)
qed


lemma times100_nearest:
  assumes "0 < m"
  shows "case times100 (m, e) of (m', e') \<Rightarrow>
           2 ^ 52 \<le> m' \<and> m' \<le> 2 ^ 53 \<and>
           \<bar>100 * (real m * 2 powi e) - real m' * 2 powi e'\<bar> \<le> 2 powi e' / 2"
proof (cases "0 \<le> e")
  case True
  then have "real (100 * m * 2 ^ nat e) / real 1 = 100 * (real m * 2 powi e)"
    by (simp add: power_int_def)
  with to_double_nearest [of "100 * m * 2 ^ nat e" 1] assms True show ?thesis
    by (simp add: times100_def mult.assoc)
next
  case False
  then have "(2::real) powi e = 1 / 2 ^ nat (- e)"
    by (simp add: power_int_def power_one_over inverse_eq_divide)
  then have "real (100 * m) / real (2 ^ nat (- e)) = 100 * (real m * 2 powi e)"
    by simp
  with to_double_nearest [of "100 * m" "2 ^ nat (- e)"] assms False show ?thesis
    by (simp add: times100_def mult.assoc)
qed

subsection \<open>Scores\<close>

lemma double_of_one_eighth: "to_double 1 8 = (2 ^ 52, - 55)"
  by (simp add: double_defs Let_def)

lemma percentage_2_of_3: "percentage 2 3 = Num 67"
  by (simp add: double_defs Let_def)



text \<open>
  The double \<open>23 / 40\<close> is \<open>0x1.2666666666666p-1\<close>, below \<open>0.575\<close>; its product with
  \<open>100\<close> is \<open>0x1.cbfffffffffffp+5\<close>, the double just below \<open>57.5\<close>.
\<close>

lemma double_23_over_40:
  "to_double 23 40 = (5179139571476070, - 53) \<and>
   times100 (to_double 23 40) = (8092405580431359, - 47) \<and>
   (575 * 2 ^ 53 > 1000 * (5179139571476070::nat)) \<and>
   (575 * 2 ^ 47 = 10 * (8092405580431359::nat) + 10)"
  by (simp add: double_defs Let_def)

lemma percentage_23_of_40: "percentage 23 40 = Num 57"
  by (simp add: double_defs Let_def)

lemma percentage_exact_5: "c \<le> 5 \<Longrightarrow> percentage c 5 = Num (round_half_up_percent c 5)"
proof -
  have all: "list_all (\<lambda>c. percentage c 5 = Num (round_half_up_percent c 5))
      [0, 1, 2, 3, 4, 5]"
    by (simp add: double_defs round_half_up_percent_def Let_def)
  assume "c \<le> 5"
  then have "c \<in> set [0, 1, 2, 3, 4, 5]"
    by (simp only: set_simps insert_iff empty_iff) presburger
  with all show ?thesis
    by (simp only: list_all_iff)
qed

lemma percentage_exact_8: "c \<le> 8 \<Longrightarrow> percentage c 8 = Num (round_half_up_percent c 8)"
proof -
  have all: "list_all (\<lambda>c. percentage c 8 = Num (round_half_up_percent c 8))
      [0, 1, 2, 3, 4, 5, 6, 7, 8]"
    by (simp add: double_defs round_half_up_percent_def Let_def)
  assume "c \<le> 8"
  then have "c \<in> set [0, 1, 2, 3, 4, 5, 6, 7, 8]"
    by (simp only: set_simps insert_iff empty_iff) presburger
  with all show ?thesis
    by (simp only: list_all_iff)
qed

lemma percentage_exact_10: "c \<le> 10 \<Longrightarrow> percentage c 10 = Num (round_half_up_percent c 10)"
proof -
  have all: "list_all (\<lambda>c. percentage c 10 = Num (round_half_up_percent c 10))
      [0, 1, 2, 3, 4, 5, 6, 7, 8, 9, 10]"
    by (simp add: double_defs round_half_up_percent_def Let_def)
  assume "c \<le> 10"
  then have "c \<in> set [0, 1, 2, 3, 4, 5, 6, 7, 8, 9, 10]"
    by (simp only: set_simps insert_iff empty_iff) presburger
  with all show ?thesis
    by (simp only: list_all_iff)
qed

lemma percentage_exact_15: "c \<le> 15 \<Longrightarrow> percentage c 15 = Num (round_half_up_percent c 15)"
proof -
  have all: "list_all (\<lambda>c. percentage c 15 = Num (round_half_up_percent c 15))
      [0, 1, 2, 3, 4, 5, 6, 7, 8, 9, 10, 11, 12, 13, 14, 15]"
    by (simp add: double_defs round_half_up_percent_def Let_def)
  assume "c \<le> 15"
  then have "c \<in> set [0, 1, 2, 3, 4, 5, 6, 7, 8, 9, 10, 11, 12, 13, 14, 15]"
    by (simp only: set_simps insert_iff empty_iff) presburger
  with all show ?thesis
    by (simp only: list_all_iff)
qed

text \<open>
  For the question counts that the quiz form offers (5, 8, 10 and 15), the double
  arithmetic gives the rounded percentage.
\<close>

lemma percentage_exact_for_offered_counts:
  assumes "n \<in> {5, 8, 10, 15}" and "c \<le> n"
  shows "percentage c n = Num (round_half_up_percent c n)"
  using assms percentage_exact_5 percentage_exact_8 percentage_exact_10 percentage_exact_15
  by blast

lemma length_fortyResults: "length fortyResults = 40"
  by (simp add: fortyResults_def)

lemma filter_upt_less: "m \<le> n \<Longrightarrow> filter (\<lambda>k. k < m) [0..<n] = [0..<m]"
  by (induction n) (auto simp: le_Suc_eq)

lemma correct_fortyResults: "length (filter correct fortyResults) = 23"
proof -
  have "filter correct fortyResults =
        map (\<lambda>k. \<lparr>questionId = replicate (Suc k) CHR ''q'',
               selected = Some (if k < 23 then 1 else 0),
               correct = (k < 23), timeSpent = 3\<rparr>) (filter (\<lambda>k. k < 23) [0..<40])"
    by (simp add: fortyResults_def filter_map comp_def)
  then show ?thesis
    by (simp add: filter_upt_less)
qed

text \<open>
  Claim C1.  The score reported on completion should be \<open>100 * correct / total\<close> rounded
  to the nearest whole number, a half going up.  For a quiz of forty questions with
  twenty-three correct answers that number is \<open>58\<close> (\<open>57.5\<close> rounded up), but
  \<open>handleQuizComplete\<close> reports \<open>57\<close>: the double \<open>23 / 40\<close> times \<open>100\<close> is
  \<open>57.49999999999999\<close>.
\<close>

theorem score_23_of_40_is_57:
  "handleQuizComplete fortyResults s =
     Returns (s\<lparr>isComplete := True,
                 onComplete_calls := onComplete_calls s @ [(Num 57, fortyResults)]\<rparr>) \<and>
   round_half_up_percent (length (filter correct fortyResults)) (length fortyResults) = 58"
  by (simp add: handleQuizComplete_def correct_fortyResults length_fortyResults
      percentage_23_of_40 round_half_up_percent_def)

section \<open>Proofs: the quiz as a state machine\<close>

lemmas quiz_defs = mount_def handleAnswerSelect_def handleAnswerSubmit_def handleTimeUp_def
  handleNextQuestion_def handleQuizComplete_def afterDelay_def then_do_def renders_def
  runEffects_def timerEffect_def render_of_def Let_def

lemma returns_withD: "returns_with P r \<Longrightarrow> \<exists>s. r = Returns s \<and> P s"
  by (cases r) (simp_all add: returns_with_def)

lemma returns_with_Returns [simp]: "returns_with P (Returns s) = P s"
  by (simp add: returns_with_def)

lemma returns_with_then_do:
  "returns_with (\<lambda>s. P (f s)) r \<Longrightarrow> returns_with P (then_do r f)"
  by (cases r) (simp_all add: returns_with_def then_do_def)

subsection \<open>The interval in every session\<close>







subsection \<open>Sessions in which no tick reaches a locked question\<close>

lemma quiz_inv_mount: "questions \<noteq> [] \<Longrightarrow> quiz_inv questions (mount timeLimit now)"
  by (simp add: quiz_inv_def interval_inv_def mount_def)

lemma quiz_inv_tick:
  assumes "quiz_inv questions s" and "\<not> tick_on_locked (TimerTick now) s"
  shows "returns_with (quiz_inv questions) (quiz_step questions timeLimit (TimerTick now) s)"
proof (cases "interval s")
  case None
  with assms show ?thesis by simp
next
  case (Some render)
  show ?thesis
  proof (cases "timeLeft s \<le> 1")
    case False
    with assms Some show ?thesis
      by (auto simp: quiz_inv_def interval_inv_def)
  next
    case True
    with assms(2) Some have free: "\<not> showResult s" by simp
    with assms(1) Some have facts: "\<not> isComplete s" "currentQuestionIndex s < length questions"
      "currentQuestionIndex render = currentQuestionIndex s" "\<not> showResult render"
      "selectedAnswer render = None" "results render = results s"
      by (simp_all add: quiz_inv_def interval_inv_def)
    with assms(1) Some True free show ?thesis
      by (auto simp: quiz_inv_def interval_inv_def handleTimeUp_def handleAnswerSubmit_def
          then_do_def Let_def take_Suc_conv_app_nth)
  qed
qed

lemma quiz_inv_submit:
  assumes "quiz_inv questions s" "\<not> isComplete s" "\<not> showResult s"
  shows "returns_with (quiz_inv questions) (handleAnswerSubmit questions now s s)"
  using assms
  by (auto simp: quiz_inv_def interval_inv_def handleAnswerSubmit_def Let_def
      take_Suc_conv_app_nth split: option.splits)

lemma quiz_inv_delay:
  assumes "quiz_inv questions s"
  shows "returns_with (quiz_inv questions)
           (quiz_step questions timeLimit (DelayElapsed now) s)"
proof (cases "timeouts s")
  case Nil
  with assms show ?thesis by simp
next
  case (Cons closure rest)
  with assms have locked: "\<not> isComplete s" "showResult s" "rest = []"
    "closure = (currentQuestionIndex s, results s)"
    "length (results s) = currentQuestionIndex s + 1"
    by (auto simp: quiz_inv_def split: if_splits)
  show ?thesis
  proof (cases "int (currentQuestionIndex s) < int (length questions) - 1")
    case True
    with assms Cons locked show ?thesis
      by (auto simp: afterDelay_def handleNextQuestion_def renders_def runEffects_def
          timerEffect_def render_of_def quiz_inv_def interval_inv_def Let_def
          split: option.splits)
  next
    case False
    with assms have "currentQuestionIndex s + 1 = length questions"
      by (simp add: quiz_inv_def)
    with assms Cons locked False show ?thesis
      by (auto simp: afterDelay_def handleQuizComplete_def renders_def runEffects_def
          timerEffect_def render_of_def quiz_inv_def interval_inv_def Let_def
          split: option.splits)
  qed
qed

lemma quiz_inv_step:
  assumes "quiz_inv questions s" and "\<not> tick_on_locked e s"
  shows "returns_with (quiz_inv questions) (quiz_step questions timeLimit e s)"
proof (cases e)
  case (TimerTick now)
  with assms have "\<not> tick_on_locked (TimerTick now) s" by simp
  from quiz_inv_tick [OF assms(1) this] TimerTick show ?thesis by simp
next
  case (OptionClick i)
  with assms show ?thesis
    by (auto simp: handleAnswerSelect_def quiz_inv_def interval_inv_def split: option.splits)
next
  case (SubmitClick now)
  with assms quiz_inv_submit [OF assms(1), of now] show ?thesis
    by auto
next
  case (DelayElapsed now)
  with quiz_inv_delay [OF assms(1)] show ?thesis by simp
qed

lemma quiz_inv_run:
  "quiz_inv questions s \<Longrightarrow> \<not> ticks_on_locked questions timeLimit es s \<Longrightarrow>
   returns_with (quiz_inv questions) (quiz_run questions timeLimit es s)"
proof (induction es arbitrary: s)
  case Nil
  then show ?case by simp
next
  case (Cons e es)
  from Cons.prems(2) have calm: "\<not> tick_on_locked e s" by simp
  from returns_withD [OF quiz_inv_step [OF Cons.prems(1) calm, of timeLimit]] obtain s1 where
    s1: "quiz_step questions timeLimit e s = Returns s1" "quiz_inv questions s1" by blast
  with Cons.prems(2) have "\<not> ticks_on_locked questions timeLimit es s1" by simp
  from Cons.IH [OF s1(2) this] s1(1) show ?case by simp
qed

lemma calm_session_inv:
  assumes "questions \<noteq> []"
    and "\<not> ticks_on_locked questions timeLimit es (mount timeLimit t0)"
  shows "\<exists>s. quiz_run questions timeLimit es (mount timeLimit t0) = Returns s \<and>
             quiz_inv questions s"
  by (rule returns_withD [OF quiz_inv_run [OF quiz_inv_mount [OF assms(1)] assms(2)]])

text \<open>
  Such a session, when it completes, reports the percentage of its correct records over
  the number of questions, once.
\<close>

lemma completion_reports_percentage:
  assumes "questions \<noteq> []"
    and "\<not> ticks_on_locked questions timeLimit es (mount timeLimit t0)"
    and "quiz_run questions timeLimit es (mount timeLimit t0) = Returns s"
    and "isComplete s"
  shows "onComplete_calls s =
           [(percentage (length (filter correct (results s))) (length questions), results s)]"
  using calm_session_inv [OF assms(1,2)] assms(3,4)
  by (auto simp: quiz_inv_def)

subsection \<open>Sample sessions\<close>

lemma run_locked:
  "quiz_run [sampleQuestion] 30 answerFirst (mount 30 0) = Returns lockedQuiz"
  by (simp add: answerFirst_def sampleQuestion_def lockedQuiz_def firstRender_def quiz_defs)






subsection \<open>The claims\<close>




text \<open>
  Claim C3 says that selecting an answer on a locked question fails with
  \<open>QuestionAlreadyLocked\<close>.  The component raises no error: \<open>handleAnswerSelect\<close>
  returns at once when \<open>showResult\<close> is set.
\<close>

theorem select_after_lock_returns:
  "quiz_run [sampleQuestion] 30 answerFirst (mount 30 0) = Returns lockedQuiz \<and>
   showResult lockedQuiz \<and>
   handleAnswerSelect 0 lockedQuiz lockedQuiz = Returns lockedQuiz \<and>
   handleAnswerSelect 0 lockedQuiz lockedQuiz \<noteq> Throws ''QuestionAlreadyLocked''"
  by (intro conjI, rule run_locked) (simp_all add: lockedQuiz_def handleAnswerSelect_def)

text \<open>
  Claim C3, amended.  Once a question is locked (answered or expired), a further call of
  \<open>handleAnswerSelect\<close> on it is ignored: it returns without an error and leaves the
  whole state, and with it the selection and the recorded answer, as it was.
\<close>

theorem handleAnswerSelect_locked_ignored:
  "showResult render \<Longrightarrow> handleAnswerSelect answerIndex render s = Returns s"
  by (simp add: handleAnswerSelect_def)

theorem handleAnswerSelect_locked_ignored_witness:
  "showResult lockedQuiz \<and> handleAnswerSelect 0 lockedQuiz lockedQuiz = Returns lockedQuiz"
proof -
  have locked: "showResult lockedQuiz"
    by (simp add: lockedQuiz_def)
  from handleAnswerSelect_locked_ignored [OF locked, of 0 lockedQuiz] locked show ?thesis
    by simp
qed







text \<open>
  What the amended claims leave out.  A question whose time has run out is locked, but
  the \<open>handleTimeUp\<close> of the interval still reads \<open>showResult\<close> as it was when the
  question began, so every further tick submits the question again and defers one more
  callback.  After an expired last question the second callback reports the score once
  more, to a quiz that is already complete.
\<close>

lemma percentage_none: "percentage 0 (Suc 0) = Num 0"
  by (simp add: percentage_def)

lemma expired_question_is_submitted_again:
  "returns_with (\<lambda>s. showResult s \<and> interval s = Some firstRender \<and> timeLeft s = 0 \<and>
       timeouts s =
         [(0, [\<lparr>questionId = ''q1'', selected = None, correct = False, timeSpent = 30\<rparr>]),
          (0, [\<lparr>questionId = ''q1'', selected = None, correct = False, timeSpent = 31\<rparr>])])
     (quiz_run [sampleQuestion] 30 (thirtyTicks @ [TimerTick 31000]) (mount 30 0))"
  by (simp add: thirtyTicks_def twentyNineTicks_def sampleQuestion_def firstRender_def
      quiz_defs upt_rec)

lemma expired_last_question_reports_twice:
  "returns_with (\<lambda>s. isComplete s \<and> timeouts s = [] \<and>
       onComplete_calls s =
         [(Num 0, [\<lparr>questionId = ''q1'', selected = None, correct = False, timeSpent = 30\<rparr>]),
          (Num 0, [\<lparr>questionId = ''q1'', selected = None, correct = False, timeSpent = 31\<rparr>])])
     (quiz_run [sampleQuestion] 30 expireTwice (mount 30 0))"
  by (simp add: expireTwice_def thirtyTicks_def twentyNineTicks_def sampleQuestion_def
      quiz_defs upt_rec percentage_none)

section \<open>Proofs: the text-to-speech service\<close>

lemmas speak_defs = speak_def speak_try_def speak_request_def fallbackSpeak_def
  new_TextToSpeechService_def

text \<open>Every world is of exactly one of three kinds.\<close>

lemma world_cases:
  "(fails_before_playback w \<and> \<not> playback_fails w \<and> \<not> remote_succeeds w) \<or>
   (\<not> fails_before_playback w \<and> playback_fails w \<and> \<not> remote_succeeds w) \<or>
   (\<not> fails_before_playback w \<and> \<not> playback_fails w \<and> remote_succeeds w)"
  by (cases "fetch_result w"; cases "blob_result w"; cases "audio_result w")
     (auto simp: fails_before_playback_def playback_fails_def remote_succeeds_def)

lemma speak_early_failure:
  assumes "fails_before_playback w"
  shows "\<exists>done. speak tts w text voiceId =
           (done @ ConsoleError ''Text-to-speech error:'' # fallbackSpeak w text, Resolved ()) \<and>
           set done \<subseteq> {speak_request tts text voiceId, ReadBody}"
  using assms
  by (cases "fetch_result w"; cases "blob_result w")
     (auto simp: fails_before_playback_def speak_def speak_try_def)

lemma speak_playback_failure:
  assumes "playback_fails w"
  shows "\<exists>done error. speak tts w text voiceId = (done, Rejected error) \<and>
           set done \<subseteq> {speak_request tts text voiceId, ReadBody, CreateObjectURL, AudioPlay,
                         PlaybackError, RevokeObjectURL}"
  using assms
  by (cases "fetch_result w"; cases "blob_result w"; cases "audio_result w")
     (auto simp: playback_fails_def speak_def speak_try_def)

lemma speak_success:
  assumes "remote_succeeds w"
  shows "speak tts w text voiceId =
           ([speak_request tts text voiceId, ReadBody, CreateObjectURL, AudioPlay,
             PlaybackEnded, RevokeObjectURL], Resolved ())"
  using assms
  by (cases "fetch_result w")
     (auto simp: remote_succeeds_def speak_def speak_try_def)

lemma handleSpeak_resolves: "snd (handleSpeak s w text) = Resolved ()"
  by (auto simp: handleSpeak_def split: option.splits prod.splits promise.splits)

text \<open>
  The failures that \<open>speak\<close> handles.  For every text: if the remote attempt fails
  before playback starts (network error, non-success response, or an error reading the
  response body), \<open>speak\<close> logs the error, calls \<open>fallbackSpeak\<close>, which speaks through
  the synthesizer of the browser if it has one, and resolves.  The component's
  \<open>handleSpeak\<close>, which awaits \<open>speak\<close> in a \<open>try\<close> block of its own, resolves in every
  world, and whenever the remote attempt fails, at playback or before, it has spoken
  the text through the synthesizer of the browser if there is one.
\<close>

lemma speak_falls_back_before_playback:
  "(fails_before_playback w \<longrightarrow>
      (\<exists>done. speak tts w text voiceId =
         (done @ ConsoleError ''Text-to-speech error:'' # fallbackSpeak w text, Resolved ())) \<and>
      (hasSpeechSynthesis w \<longrightarrow>
         fallbackSpeak w text = [SynthSpeak text ''en-US'' (Some ''0.8'')])) \<and>
   snd (handleSpeak s w text) = Resolved () \<and>
   (ttsService s = Some tts \<and> \<not> remote_succeeds w \<and> hasSpeechSynthesis w \<longrightarrow>
      (\<exists>rate. SynthSpeak text ''en-US'' rate \<in> set (fst (handleSpeak s w text))))"
proof (intro conjI impI)
  assume "fails_before_playback w"
  from speak_early_failure [OF this]
  show "\<exists>done. speak tts w text voiceId =
         (done @ ConsoleError ''Text-to-speech error:'' # fallbackSpeak w text, Resolved ())"
    by blast
next
  assume "hasSpeechSynthesis w"
  then show "fallbackSpeak w text = [SynthSpeak text ''en-US'' (Some ''0.8'')]"
    by (simp add: fallbackSpeak_def)
next
  show "snd (handleSpeak s w text) = Resolved ()"
    by (rule handleSpeak_resolves)
next
  assume fails: "ttsService s = Some tts \<and> \<not> remote_succeeds w \<and> hasSpeechSynthesis w"
  show "\<exists>rate. SynthSpeak text ''en-US'' rate \<in> set (fst (handleSpeak s w text))"
  proof (cases "ttsEnabled s")
    case False
    with fails show ?thesis
      by (auto simp: handleSpeak_def)
  next
    case True
    from world_cases [of w] fails show ?thesis
    proof (elim disjE conjE)
      assume "fails_before_playback w"
      from speak_early_failure [OF this, of tts "text" None] True fails show ?thesis
        by (auto simp: handleSpeak_def getTTS_def fallbackSpeak_def)
    next
      assume "playback_fails w"
      from speak_playback_failure [OF this, of tts "text" None] True fails show ?thesis
        by (auto simp: handleSpeak_def getTTS_def)
    qed simp
  qed
qed

lemma speak_falls_back_before_playback_example:
  "fails_before_playback serverErrorWorld \<and> hasSpeechSynthesis serverErrorWorld \<and>
   speak sampleService serverErrorWorld ''hello'' None =
     ([Fetch ''POST'' ''https://api.elevenlabs.io/v1/text-to-speech/Rachel'' ''sk_test''
         (Some (''hello'', ''eleven_monolingual_v1'')),
       ConsoleError ''Text-to-speech error:'',
       SynthSpeak ''hello'' ''en-US'' (Some ''0.8'')], Resolved ()) \<and>
   ttsService configuredSpeech = Some sampleService \<and>
   \<not> remote_succeeds brokenAudioWorld \<and> hasSpeechSynthesis brokenAudioWorld \<and>
   handleSpeak configuredSpeech brokenAudioWorld ''hello'' =
     ([Fetch ''POST'' ''https://api.elevenlabs.io/v1/text-to-speech/Rachel'' ''sk_test''
         (Some (''hello'', ''eleven_monolingual_v1'')),
       ReadBody, CreateObjectURL, AudioPlay, PlaybackError, RevokeObjectURL,
       ConsoleError ''TTS error:'', SynthSpeak ''hello'' ''en-US'' None], Resolved ())"
proof -
  have early: "fails_before_playback serverErrorWorld"
    and synth: "hasSpeechSynthesis serverErrorWorld"
    by (simp_all add: fails_before_playback_def serverErrorWorld_def goodWorld_def ok_def)
  have service: "ttsService configuredSpeech = Some sampleService"
    by (simp add: configuredSpeech_def loadSavedKey_def initialSpeech_def initTTS_def
        sampleService_def)
  have broken: "\<not> remote_succeeds brokenAudioWorld" "hasSpeechSynthesis brokenAudioWorld"
    by (simp_all add: remote_succeeds_def brokenAudioWorld_def goodWorld_def)
  from speak_falls_back_before_playback
    [of serverErrorWorld sampleService "''hello''" None configuredSpeech] early synth
  have "fallbackSpeak serverErrorWorld ''hello'' = [SynthSpeak ''hello'' ''en-US'' (Some ''0.8'')]"
    by blast
  then have first: "speak sampleService serverErrorWorld ''hello'' None =
     ([Fetch ''POST'' ''https://api.elevenlabs.io/v1/text-to-speech/Rachel'' ''sk_test''
         (Some (''hello'', ''eleven_monolingual_v1'')),
       ConsoleError ''Text-to-speech error:'',
       SynthSpeak ''hello'' ''en-US'' (Some ''0.8'')], Resolved ())"
    by (simp add: speak_def speak_try_def speak_request_def new_TextToSpeechService_def
        sampleService_def serverErrorWorld_def goodWorld_def ok_def)
  from speak_falls_back_before_playback
    [of brokenAudioWorld sampleService "''hello''" None configuredSpeech]
  have "snd (handleSpeak configuredSpeech brokenAudioWorld ''hello'') = Resolved ()"
    by blast
  moreover have "fst (handleSpeak configuredSpeech brokenAudioWorld ''hello'') =
     [Fetch ''POST'' ''https://api.elevenlabs.io/v1/text-to-speech/Rachel'' ''sk_test''
         (Some (''hello'', ''eleven_monolingual_v1'')),
       ReadBody, CreateObjectURL, AudioPlay, PlaybackError, RevokeObjectURL,
       ConsoleError ''TTS error:'', SynthSpeak ''hello'' ''en-US'' None]"
    by (simp add: handleSpeak_def getTTS_def configuredSpeech_def loadSavedKey_def
        initialSpeech_def initTTS_def speak_defs brokenAudioWorld_def goodWorld_def ok_def)
  ultimately have second: "handleSpeak configuredSpeech brokenAudioWorld ''hello'' =
     ([Fetch ''POST'' ''https://api.elevenlabs.io/v1/text-to-speech/Rachel'' ''sk_test''
         (Some (''hello'', ''eleven_monolingual_v1'')),
       ReadBody, CreateObjectURL, AudioPlay, PlaybackError, RevokeObjectURL,
       ConsoleError ''TTS error:'', SynthSpeak ''hello'' ''en-US'' None], Resolved ())"
    by (simp add: prod_eq_iff)
  from early synth first service broken second show ?thesis
    by blast
qed

text \<open>
  Claim C6 says that \<open>speak\<close> falls back to the synthesizer and never rejects, whatever
  fails in the remote attempt, the playback included.  That is what its \<open>try\<close> and
  \<open>catch\<close> blocks do for the failures before playback; a failure of the playback passes
  them by, because the promise around the audio element is returned from inside the
  \<open>try\<close> block without being awaited.  Here the request succeeds and the audio element
  fires its error event: the promise of \<open>speak\<close> rejects, and the synthesizer, although
  present, is not used.
\<close>

theorem speak_rejects_on_playback_error:
  "speak sampleService brokenAudioWorld ''hello'' None =
     ([Fetch ''POST'' ''https://api.elevenlabs.io/v1/text-to-speech/Rachel'' ''sk_test''
         (Some (''hello'', ''eleven_monolingual_v1'')),
       ReadBody, CreateObjectURL, AudioPlay, PlaybackError, RevokeObjectURL],
      Rejected ''error event'') \<and>
   hasSpeechSynthesis brokenAudioWorld"
  by (simp add: sampleService_def brokenAudioWorld_def goodWorld_def speak_defs ok_def)

lemma one_at_a_time_after_success:
  "one_at_a_time False
     ([speak_request tts text voiceId, ReadBody, CreateObjectURL, AudioPlay, PlaybackEnded,
       RevokeObjectURL] @ rest) = one_at_a_time False rest"
  by (simp add: speak_request_def Let_def)

lemma speak_in_turn_success:
  "\<forall>call \<in> set calls. remote_succeeds (fst call) \<Longrightarrow>
   snd (speak_in_turn tts calls) = Resolved () \<and>
   one_at_a_time False (fst (speak_in_turn tts calls))"
proof (induction calls)
  case Nil
  then show ?case by simp
next
  case (Cons call calls)
  obtain w words where call: "call = (w, words)"
    by (cases call)
  with Cons.prems have "remote_succeeds w"
    by simp
  note first = speak_success [OF this, of tts words None]
  from Cons have rest: "snd (speak_in_turn tts calls) = Resolved ()"
    "one_at_a_time False (fst (speak_in_turn tts calls))"
    by simp_all
  obtain later settled where later: "speak_in_turn tts calls = (later, settled)"
    by (cases "speak_in_turn tts calls")
  with rest call first show ?case
    using one_at_a_time_after_success [of tts words None later]
    by simp
qed

text \<open>
  Claim C7.  When the remote call succeeds, the promise of \<open>speak\<close> resolves only after
  the audio has played to its end: everything up to the \<open>ended\<close> event of the audio
  element happens before the promise settles.  More generally, whenever the promise
  resolves after an audio element was started, that element has ended.  Hence a caller
  that awaits successful calls one after the other never starts an audio element while
  another one plays.
\<close>

theorem speak_resolves_after_playback:
  "(remote_succeeds w \<longrightarrow>
      speak tts w text voiceId =
        ([speak_request tts text voiceId, ReadBody, CreateObjectURL, AudioPlay, PlaybackEnded,
          RevokeObjectURL], Resolved ())) \<and>
   (snd (speak tts w text voiceId) = Resolved () \<and> AudioPlay \<in> set (fst (speak tts w text voiceId))
      \<longrightarrow> (\<exists>before. fst (speak tts w text voiceId) =
                before @ [AudioPlay, PlaybackEnded, RevokeObjectURL])) \<and>
   ((\<forall>call \<in> set calls. remote_succeeds (fst call)) \<longrightarrow>
      snd (speak_in_turn tts calls) = Resolved () \<and>
      one_at_a_time False (fst (speak_in_turn tts calls)))"
proof (intro conjI impI)
  assume "remote_succeeds w"
  then show "speak tts w text voiceId =
        ([speak_request tts text voiceId, ReadBody, CreateObjectURL, AudioPlay, PlaybackEnded,
          RevokeObjectURL], Resolved ())"
    by (rule speak_success)
next
  assume played: "snd (speak tts w text voiceId) = Resolved () \<and>
    AudioPlay \<in> set (fst (speak tts w text voiceId))"
  from world_cases [of w] show "\<exists>before. fst (speak tts w text voiceId) =
                before @ [AudioPlay, PlaybackEnded, RevokeObjectURL]"
  proof (elim disjE conjE)
    assume "fails_before_playback w"
    from speak_early_failure [OF this, of tts "text" voiceId] played show ?thesis
      by (auto simp: fallbackSpeak_def speak_request_def Let_def split: if_splits)
  next
    assume "playback_fails w"
    from speak_playback_failure [OF this, of tts "text" voiceId] played show ?thesis
      by auto
  next
    assume "remote_succeeds w"
    from speak_success [OF this, of tts "text" voiceId]
    have "fst (speak tts w text voiceId) =
        [speak_request tts text voiceId, ReadBody, CreateObjectURL] @
        [AudioPlay, PlaybackEnded, RevokeObjectURL]"
      by simp
    then show ?thesis by blast
  qed
next
  assume "\<forall>call \<in> set calls. remote_succeeds (fst call)"
  then show "snd (speak_in_turn tts calls) = Resolved ()"
    and "one_at_a_time False (fst (speak_in_turn tts calls))"
    using speak_in_turn_success [of calls tts] by simp_all
qed

theorem speak_resolves_after_playback_witness:
  "remote_succeeds goodWorld \<and>
   speak sampleService goodWorld ''hello'' None =
     ([Fetch ''POST'' ''https://api.elevenlabs.io/v1/text-to-speech/Rachel'' ''sk_test''
         (Some (''hello'', ''eleven_monolingual_v1'')),
       ReadBody, CreateObjectURL, AudioPlay, PlaybackEnded, RevokeObjectURL], Resolved ()) \<and>
   one_at_a_time False
     (fst (speak_in_turn sampleService [(goodWorld, ''hello''), (goodWorld, ''world'')])) \<and>
   \<not> one_at_a_time False [AudioPlay, AudioPlay]"
proof -
  have good: "remote_succeeds goodWorld"
    by (simp add: remote_succeeds_def goodWorld_def ok_def)
  then have both: "\<forall>call \<in> set [(goodWorld, ''hello''), (goodWorld, ''world'')].
      remote_succeeds (fst call)"
    by simp
  note claim = speak_resolves_after_playback [of goodWorld sampleService "''hello''" None
      "[(goodWorld, ''hello''), (goodWorld, ''world'')]"]
  from claim good have "speak sampleService goodWorld ''hello'' None =
      ([speak_request sampleService ''hello'' None, ReadBody, CreateObjectURL, AudioPlay,
        PlaybackEnded, RevokeObjectURL], Resolved ())"
    by blast
  then have first: "speak sampleService goodWorld ''hello'' None =
     ([Fetch ''POST'' ''https://api.elevenlabs.io/v1/text-to-speech/Rachel'' ''sk_test''
         (Some (''hello'', ''eleven_monolingual_v1'')),
       ReadBody, CreateObjectURL, AudioPlay, PlaybackEnded, RevokeObjectURL], Resolved ())"
    by (simp add: speak_request_def sampleService_def new_TextToSpeechService_def)
  from claim both have "one_at_a_time False
     (fst (speak_in_turn sampleService [(goodWorld, ''hello''), (goodWorld, ''world'')]))"
    by blast
  with good first show ?thesis
    by simp
qed

text \<open>
  Claim C8.  When no API key is configured (none is stored, or an empty one, and the
  key typed into the settings is blank), the singleton is never created and the
  component stays in fallback mode: \<open>ttsEnabled\<close> is false and \<open>getTTS\<close> returns
  \<open>null\<close>, also after a click on the save button; and in that mode \<open>handleSpeak\<close>
  resolves having called \<open>fetch\<close> not once, speaking through the synthesizer of the
  browser if it has one.
\<close>

theorem no_key_no_remote_call:
  "(stored = None \<or> stored = Some [] \<longrightarrow>
      \<not> ttsEnabled (loadSavedKey (initialSpeech stored)) \<and>
      getTTS (ttsService (loadSavedKey (initialSpeech stored))) = None) \<and>
   (\<not> ttsEnabled s \<and> ttsService s = None \<and> trim typed = [] \<longrightarrow>
      \<not> ttsEnabled (handleSaveElevenLabsKey (setElevenLabsKey typed s)) \<and>
      getTTS (ttsService (handleSaveElevenLabsKey (setElevenLabsKey typed s))) = None) \<and>
   (\<not> ttsEnabled s \<longrightarrow>
      handleSpeak s w text =
        ((if hasSpeechSynthesis w then [SynthSpeak text ''en-US'' (Some ''0.8'')] else []),
         Resolved ()) \<and>
      (\<forall>e \<in> set (fst (handleSpeak s w text)). \<not> is_fetch e))"
  by (auto simp: loadSavedKey_def initialSpeech_def getTTS_def handleSaveElevenLabsKey_def
      setElevenLabsKey_def handleSpeak_def)

theorem no_key_no_remote_call_witness:
  "\<not> ttsEnabled (loadSavedKey (initialSpeech None)) \<and>
   trim ''  '' = [] \<and>
   \<not> ttsEnabled (handleSaveElevenLabsKey (setElevenLabsKey ''  ''
        (loadSavedKey (initialSpeech None)))) \<and>
   handleSpeak (loadSavedKey (initialSpeech None)) goodWorld ''hello'' =
     ([SynthSpeak ''hello'' ''en-US'' (Some ''0.8'')], Resolved ())"
proof -
  let ?s = "loadSavedKey (initialSpeech None)"
  have blank: "trim ''  '' = []"
    by (simp add: trim_def white_space_def strip.simps)
  have none: "ttsService ?s = None"
    by (simp add: loadSavedKey_def initialSpeech_def)
  have synth: "hasSpeechSynthesis goodWorld"
    by (simp add: goodWorld_def)
  note claim = no_key_no_remote_call [of None ?s "''  ''" goodWorld "''hello''"]
  from claim have off: "\<not> ttsEnabled ?s"
    by blast
  with claim none blank
  have saved: "\<not> ttsEnabled (handleSaveElevenLabsKey (setElevenLabsKey ''  '' ?s))"
    by blast
  from claim off have "handleSpeak ?s goodWorld ''hello'' =
        ((if hasSpeechSynthesis goodWorld then [SynthSpeak ''hello'' ''en-US'' (Some ''0.8'')]
          else []), Resolved ())"
    by blast
  with synth have "handleSpeak ?s goodWorld ''hello'' =
      ([SynthSpeak ''hello'' ''en-US'' (Some ''0.8'')], Resolved ())"
    by simp
  with off blank saved show ?thesis
    by blast
qed

text \<open>
  Claim C9.  \<open>getVoices\<close> never rejects.  On a network error, a non-success response or
  a body that is not JSON it resolves with the empty array; on a successful response
  whose body is an object with an array of voices it resolves with that array.
\<close>

theorem getVoices_empty_on_failure:
  "(\<exists>voices. snd (getVoices tts w) = Resolved voices) \<and>
   (fetch_result w = NetworkError \<or> (\<exists>status. fetch_result w = Response status \<and> \<not> ok status) \<or>
    json_result w = JsonFails \<longrightarrow> snd (getVoices tts w) = Resolved (JArr [])) \<and>
   (\<forall>status members voices.
      fetch_result w = Response status \<and> ok status \<and> json_result w = Json (JObj members) \<and>
      map_of (rev members) ''voices'' = Some (JArr voices) \<longrightarrow>
      snd (getVoices tts w) = Resolved (JArr voices))"
proof (intro conjI allI impI)
  show "\<exists>voices. snd (getVoices tts w) = Resolved voices"
    by (simp add: getVoices_def split: fetch_outcome.splits json_outcome.splits
        outcome.splits option.splits)
next
  assume "fetch_result w = NetworkError \<or>
    (\<exists>status. fetch_result w = Response status \<and> \<not> ok status) \<or> json_result w = JsonFails"
  then show "snd (getVoices tts w) = Resolved (JArr [])"
    by (auto simp: getVoices_def split: fetch_outcome.splits)
next
  fix status members voices
  assume "fetch_result w = Response status \<and> ok status \<and>
    json_result w = Json (JObj members) \<and> map_of (rev members) ''voices'' = Some (JArr voices)"
  then show "snd (getVoices tts w) = Resolved (JArr voices)"
    by (simp add: getVoices_def property_def)
qed

theorem getVoices_empty_on_failure_witness:
  "snd (getVoices sampleService goodWorld) = Resolved (JArr [JStr ''Rachel'']) \<and>
   snd (getVoices sampleService serverErrorWorld) = Resolved (JArr [])"
proof -
  have "fetch_result goodWorld = Response 200 \<and> ok 200 \<and>
      json_result goodWorld = Json (JObj [(''voices'', JArr [JStr ''Rachel''])]) \<and>
      map_of (rev [(''voices'', JArr [JStr ''Rachel''])]) ''voices'' = Some (JArr [JStr ''Rachel''])"
    by (simp add: goodWorld_def ok_def)
  with getVoices_empty_on_failure [of sampleService goodWorld]
  have good: "snd (getVoices sampleService goodWorld) = Resolved (JArr [JStr ''Rachel''])"
    by blast
  have "fetch_result serverErrorWorld = Response 500 \<and> \<not> ok 500"
    by (simp add: serverErrorWorld_def goodWorld_def ok_def)
  with getVoices_empty_on_failure [of sampleService serverErrorWorld]
  have "snd (getVoices sampleService serverErrorWorld) = Resolved (JArr [])"
    by blast
  with good show ?thesis
    by blast
qed

section \<open>Proofs: flashcard navigation\<close>

lemma index_ok_step: "index_ok s \<Longrightarrow> index_ok (study_step e s)"
  by (cases e)
     (auto simp: index_ok_def onNext_def onPrevious_def onFlip_def cardsCreated_def)

lemma index_ok_run: "index_ok s \<Longrightarrow> index_ok (study_run es s)"
  by (induction es arbitrary: s) (simp_all add: index_ok_step)

lemma index_ok_initial: "index_ok initialStudy"
  by (simp add: index_ok_def initialStudy_def)

text \<open>
  Claim C10.  In the flashcard study view the card index stays within bounds: after any
  sequence of events from the initial state, a non-empty card list has its index in
  \<open>[0, length - 1]\<close>; \<open>onNext\<close> on the last card leaves the index at \<open>length - 1\<close>, and
  \<open>onPrevious\<close> on the first card leaves it at \<open>0\<close>.
\<close>

theorem card_index_in_bounds:
  "(flashcards (study_run es initialStudy) \<noteq> [] \<longrightarrow>
      0 \<le> currentCardIndex (study_run es initialStudy) \<and>
      currentCardIndex (study_run es initialStudy)
        \<le> int (length (flashcards (study_run es initialStudy))) - 1) \<and>
   (flashcards s \<noteq> [] \<and> currentCardIndex s = int (length (flashcards s)) - 1 \<longrightarrow>
      currentCardIndex (onNext s) = int (length (flashcards s)) - 1) \<and>
   (currentCardIndex s = 0 \<longrightarrow> currentCardIndex (onPrevious s) = 0)"
proof -
  have "index_ok (study_run es initialStudy)"
    by (rule index_ok_run [OF index_ok_initial])
  then show ?thesis
    by (auto simp: index_ok_def onNext_def onPrevious_def)
qed

theorem card_index_in_bounds_witness:
  "flashcards (study_run [CardsCreated [sampleCard, sampleCard], Next, Next] initialStudy) \<noteq> [] \<and>
   currentCardIndex (study_run [CardsCreated [sampleCard, sampleCard], Next, Next] initialStudy)
     = 1 \<and>
   currentCardIndex
     (onNext (study_run [CardsCreated [sampleCard, sampleCard], Next, Next] initialStudy)) = 1 \<and>
   currentCardIndex twoCards = 0 \<and> currentCardIndex (onPrevious twoCards) = 0"
proof -
  let ?s = "study_run [CardsCreated [sampleCard, sampleCard], Next, Next] initialStudy"
  have cards: "flashcards ?s = [sampleCard, sampleCard]"
    and last: "currentCardIndex ?s = 1"
    by (simp_all add: initialStudy_def cardsCreated_def onNext_def)
  have first: "currentCardIndex twoCards = 0"
    by (simp add: twoCards_def)
  from card_index_in_bounds [of "[CardsCreated [sampleCard, sampleCard], Next, Next]" ?s]
    cards last
  have "currentCardIndex (onNext ?s) = 1"
    by simp
  moreover from card_index_in_bounds [of "[]" twoCards] first
  have "currentCardIndex (onPrevious twoCards) = 0"
    by blast
  ultimately show ?thesis
    using cards last first by simp
qed

end
